theory Spec2Isabelle
  imports Main
begin

section \<open>The e-mail sender of notify-plugins (pkg/email/sender.go)\<close>

text \<open>
  The dispatcher \<open>SEmailSender\<close> owns a message channel and a slice of workers
  (\<open>sSender\<close>); every worker is a goroutine running \<open>Run\<close>. The embedding keeps the
  structs as records, the Go channels as cells of explicit heaps, panics and errors as
  values, and everything the outside world decides (what a \<open>select\<close> picks, what the SMTP
  transport answers) as an argument of the function that consumes it.
\<close>

subsection \<open>Errors, panics, transport\<close>

text \<open>An error value of the kind built by \<open>errors.Error\<close>, \<open>fmt.Errorf\<close> or returned by
  gomail, carried by the text its \<open>Error()\<close> method gives.\<close>

datatype error = Error string

fun Error_text :: "error \<Rightarrow> string" where
  "Error_text (Error s) = s"

text \<open>\<open>errors.Wrap(common.ErrConfigMiss, noKey)\<close>, the only error of \<open>initSender\<close>.\<close>

datatype config_error = WrapConfigMiss string

text \<open>The run-time panics the code can reach.\<close>

datatype panic =
  CloseOfClosedChannel | IndexOutOfRange | MakechanSizeOutOfRange | MakesliceLenOutOfRange
  | NilDereference

text \<open>\<open>gomail.Message\<close> after the four \<open>SetHeader\<close>/\<open>SetBody\<close> calls of \<open>send\<close>.\<close>

record gomail_Message =
  From :: string
  To :: string
  Subject :: string
  Body :: string

text \<open>\<open>gomail.Dialer\<close>: the fields \<open>NewDialer\<close> fills and the two the code sets.
  \<open>dTLSConfig\<close> is \<open>None\<close> for a nil pointer and \<open>Some b\<close> for
  \<open>&tls.Config{InsecureSkipVerify: b}\<close>.\<close>

record Dialer =
  dHost :: string
  dPort :: int
  dUsername :: string
  dPassword :: string
  dSSL :: bool
  dTLSConfig :: "bool option"

definition NewDialer :: "string \<Rightarrow> int \<Rightarrow> string \<Rightarrow> string \<Rightarrow> Dialer" where
  "NewDialer host port username password =
     \<lparr>dHost = host, dPort = port, dUsername = username, dPassword = password,
      dSSL = (port = 465), dTLSConfig = None\<rparr>"

text \<open>A live connection handle (\<open>gomail.SendCloser\<close>).\<close>

datatype SendCloser = Conn nat

text \<open>What the transport answers during one iteration of a worker's loop: the result of
  \<open>dialer.Dial()\<close>, of \<open>gomail.Send\<close> and of \<open>sender.Close()\<close>, each read only on the
  path that makes the call.\<close>

record transport =
  dial_result :: "error + SendCloser"
  send_result :: "error option"
  close_result :: "error option"

subsection \<open>The worker\<close>

record sSendUnit =
  message :: gomail_Message
  result :: nat

text \<open>\<open>stopC\<close> is a reference into the heap of stop channels, \<open>None\<close> for the nil channel
  of a zero-valued struct, and \<open>dialer\<close> is \<open>None\<close> for its nil pointer. The \<open>man\<close>
  pointer is left out: there is one dispatcher, held by the state the worker runs in.\<close>

record sSender =
  number :: int
  dialer :: "Dialer option"
  sender :: "SendCloser option"
  "open" :: bool
  stopC :: "nat option"
  closeFailedTimes :: int

text \<open>The case a \<open>select\<close> of \<open>Run\<close> takes: a unit received from \<open>msgChan\<close>, the channel
  found closed (\<open>ok\<close> false), the stop channel, or the 30 second timer.\<close>

datatype select_case = RecvMsg sSendUnit | RecvClosed | RecvStop | AfterIdle

text \<open>What an iteration does to the outside: transport calls and sends on a result
  channel.\<close>

datatype effect = Dial | SendMail SendCloser gomail_Message | CloseConn SendCloser | Signal nat bool

datatype control = ContinueLoop | BreakLoop | Panicked panic

text \<open>One iteration of the \<open>for\<close> loop of \<open>Run\<close>. The dial, the send and the signal all sit
  inside \<open>if !self.open\<close>, so the branch for an open worker is empty.\<close>

definition Run_iteration :: "transport \<Rightarrow> select_case \<Rightarrow> sSender \<Rightarrow> sSender \<times> effect list \<times> control" where
  "Run_iteration tr sel self =
     (case sel of
        RecvClosed \<Rightarrow> (self, [], BreakLoop)
      | RecvMsg msg \<Rightarrow>
          if \<not> open self then
            (case dialer self of
               None \<Rightarrow> (self, [], Panicked NilDereference)
             | Some d \<Rightarrow>
                 (case dial_result tr of
                    Inl err \<Rightarrow>
                      (self\<lparr>sender := None\<rparr>, [Dial, Signal (result msg) False], ContinueLoop)
                  | Inr conn \<Rightarrow>
                      (case send_result tr of
                         Some err \<Rightarrow>
                           (self\<lparr>sender := Some conn, open := False\<rparr>,
                            [Dial, SendMail conn (message msg), Signal (result msg) False],
                            ContinueLoop)
                       | None \<Rightarrow>
                           (self\<lparr>sender := Some conn, open := True\<rparr>,
                            [Dial, SendMail conn (message msg), Signal (result msg) True],
                            ContinueLoop))))
          else (self, [], ContinueLoop)
      | RecvStop \<Rightarrow> (self, [], BreakLoop)
      | AfterIdle \<Rightarrow>
          if open self then
            (case sender self of
               None \<Rightarrow> (self, [], Panicked NilDereference)
             | Some conn \<Rightarrow>
                 (case close_result tr of
                    Some err \<Rightarrow>
                      if closeFailedTimes self > 2
                      then (self\<lparr>closeFailedTimes := 0, open := False\<rparr>, [CloseConn conn], ContinueLoop)
                      else (self\<lparr>closeFailedTimes := closeFailedTimes self + 1\<rparr>, [CloseConn conn], ContinueLoop)
                  | None \<Rightarrow> (self\<lparr>open := False\<rparr>, [CloseConn conn], ContinueLoop)))
          else (self, [], ContinueLoop))"

text \<open>A finite run of the loop: the iterations for a list of select outcomes, stopping
  at the first one that leaves the loop.\<close>

fun Run :: "(select_case \<times> transport) list \<Rightarrow> sSender \<Rightarrow> sSender \<times> effect list \<times> control" where
  "Run [] self = (self, [], ContinueLoop)"
| "Run ((sel, tr) # rest) self =
     (case Run_iteration tr sel self of
        (self', effs, ContinueLoop) \<Rightarrow>
          (case Run rest self' of (self'', effs', c) \<Rightarrow> (self'', effs @ effs', c))
      | (self', effs, c) \<Rightarrow> (self', effs, c))"

text \<open>How often a list of effects sends on result channel \<open>r\<close>.\<close>

fun signals_on :: "nat \<Rightarrow> effect list \<Rightarrow> bool list" where
  "signals_on r [] = []"
| "signals_on r (Signal r' b # es) = (if r' = r then b # signals_on r es else signals_on r es)"
| "signals_on r (e # es) = signals_on r es"

fun send_attempts :: "effect list \<Rightarrow> nat" where
  "send_attempts [] = 0"
| "send_attempts (SendMail c m # es) = Suc (send_attempts es)"
| "send_attempts (e # es) = send_attempts es"

subsection \<open>Configuration keys and lookups\<close>

text \<open>Modelled from the spec: the key constants \<open>HOSTNAME\<close>, \<open>HOSTPORT\<close>, \<open>USERNAME\<close>,
  \<open>PASSWORD\<close>, \<open>SSL\<close>, \<open>GLOBALSSL\<close> and \<open>SENDERADDRESS\<close> are declared in a file of the
  package that is not under src/. The spec names the keys host, port, username, password,
  an instance-level and a global SSL flag and a sender-address override, and gives
  "require password" as the message for a missing password key.\<close>

definition HOSTNAME :: string where "HOSTNAME = ''hostname''"
definition HOSTPORT :: string where "HOSTPORT = ''hostport''"
definition USERNAME :: string where "USERNAME = ''username''"
definition PASSWORD :: string where "PASSWORD = ''password''"
definition SSL :: string where "SSL = ''ssl''"
definition GLOBALSSL :: string where "GLOBALSSL = ''ssl_global''"
definition SENDERADDRESS :: string where "SENDERADDRESS = ''sender_address''"

type_synonym config = "string \<rightharpoonup> string"

text \<open>Modelled from the spec: \<open>common.CheckMap\<close> is not under src/. Like the store's
  \<open>BatchGet(keys) -> (values, allFound, firstMissingKey)\<close> it returns the values of the
  keys in order, or the first key the map lacks.\<close>

fun CheckMap :: "config \<Rightarrow> string list \<Rightarrow> string list \<times> bool \<times> string" where
  "CheckMap configs [] = ([], True, [])"
| "CheckMap configs (key # keys) =
     (case configs key of
        None \<Rightarrow> ([], False, key)
      | Some v \<Rightarrow>
          (case CheckMap configs keys of
             (vals, ok, noKey) \<Rightarrow> if ok then (v # vals, True, []) else ([], False, noKey)))"

text \<open>Modelled from the spec: \<open>common.SConfigCache\<close> is not under src/. The spec gives
  \<open>Get(key) -> (value, found)\<close>, \<open>BatchGet(keys) -> (values, allFound, firstMissingKey)\<close>,
  \<open>BatchSet(map)\<close> and \<open>Clean()\<close>; the cache is the map it holds.\<close>

definition Get :: "config \<Rightarrow> string \<Rightarrow> string \<times> bool" where
  "Get cache key = (case cache key of None \<Rightarrow> ([], False) | Some v \<Rightarrow> (v, True))"

fun BatchGet :: "config \<Rightarrow> string list \<Rightarrow> string list \<times> bool \<times> string" where
  "BatchGet cache [] = ([], True, [])"
| "BatchGet cache (key # keys) =
     (case cache key of
        None \<Rightarrow> ([], False, key)
      | Some v \<Rightarrow>
          (case BatchGet cache keys of
             (vals, ok, noKey) \<Rightarrow> if ok then (v # vals, True, []) else ([], False, noKey)))"

definition Clean :: "config \<Rightarrow> config" where
  "Clean cache = Map.empty"

definition BatchSet :: "config \<Rightarrow> config \<Rightarrow> config" where
  "BatchSet cache configs = cache ++ configs"

subsection \<open>Library functions: \<open>strconv.Atoi\<close> and \<open>strings.Contains\<close>\<close>

text \<open>\<open>strconv.Atoi\<close> for a 64-bit \<open>int\<close>, as the Go library has it: a fast path for
  strings of 1 to 18 bytes, and \<open>ParseInt(s, 10, 0)\<close> for the rest. The value returned
  beside an error is part of the result, since \<open>initSender\<close> keeps the value and drops
  the error.\<close>

datatype num_error = ErrSyntax | ErrRange

definition is_digit :: "char \<Rightarrow> bool" where
  "is_digit c = (48 \<le> (of_char c :: nat) \<and> (of_char c :: nat) \<le> 57)"

definition digit_val :: "char \<Rightarrow> nat" where
  "digit_val c = of_char c - 48"

fun fast_digits :: "string \<Rightarrow> nat \<Rightarrow> nat option" where
  "fast_digits [] n = Some n"
| "fast_digits (ch # s) n =
     (if is_digit ch then fast_digits s (n * 10 + digit_val ch) else None)"

definition maxUint64 :: nat where
  "maxUint64 = 18446744073709551615"

fun ParseUint_loop :: "string \<Rightarrow> nat \<Rightarrow> nat \<times> num_error option" where
  "ParseUint_loop [] n = (n, None)"
| "ParseUint_loop (c # s) n =
     (if \<not> is_digit c then (0, Some ErrSyntax)
      else if n \<ge> maxUint64 div 10 + 1 then (maxUint64, Some ErrRange)
      else if n * 10 + digit_val c > maxUint64 then (maxUint64, Some ErrRange)
      else ParseUint_loop s (n * 10 + digit_val c))"

definition ParseUint :: "string \<Rightarrow> nat \<times> num_error option" where
  "ParseUint s = (if s = [] then (0, Some ErrSyntax) else ParseUint_loop s 0)"

definition ParseInt :: "string \<Rightarrow> int \<times> num_error option" where
  "ParseInt s =
     (if s = [] then (0, Some ErrSyntax)
      else
        let neg = (hd s = CHR ''-'');
            s' = (if hd s = CHR ''+'' \<or> hd s = CHR ''-'' then tl s else s)
        in (case ParseUint s' of
              (un, Some ErrSyntax) \<Rightarrow> (0, Some ErrSyntax)
            | (un, _) \<Rightarrow>
                if \<not> neg \<and> un \<ge> 2 ^ 63 then (2 ^ 63 - 1, Some ErrRange)
                else if neg \<and> un > 2 ^ 63 then (- (2 ^ 63), Some ErrRange)
                else (if neg then - int un else int un, None)))"

definition Atoi :: "string \<Rightarrow> int \<times> num_error option" where
  "Atoi s =
     (if 0 < length s \<and> length s < 19 then
        let s' = (if hd s = CHR ''-'' \<or> hd s = CHR ''+'' then tl s else s)
        in if s' = [] then (0, Some ErrSyntax)
           else (case fast_digits s' 0 of
                   None \<Rightarrow> (0, Some ErrSyntax)
                 | Some n \<Rightarrow> (if hd s = CHR ''-'' then - int n else int n, None))
      else ParseInt s)"

text \<open>\<open>strings.HasPrefix\<close> and \<open>strings.Contains\<close>.\<close>

fun HasPrefix :: "string \<Rightarrow> string \<Rightarrow> bool" where
  "HasPrefix s [] = True"
| "HasPrefix [] (c # prefix) = False"
| "HasPrefix (d # s) (c # prefix) = (d = c \<and> HasPrefix s prefix)"

fun Contains :: "string \<Rightarrow> string \<Rightarrow> bool" where
  "Contains [] substr = (substr = [])"
| "Contains (c # s) substr = (HasPrefix (c # s) substr \<or> Contains s substr)"

text \<open>The claim's words for the port value: a decimal integer is an optional sign
  followed by one or more decimal digits.\<close>

definition decimal_integer :: "string \<Rightarrow> bool" where
  "decimal_integer s =
     (let body = (if s \<noteq> [] \<and> (hd s = CHR ''+'' \<or> hd s = CHR ''-'') then tl s else s)
      in body \<noteq> [] \<and> list_all is_digit body)"

subsection \<open>The dispatcher and the state it runs in\<close>

text \<open>What the \<open>select\<close> of \<open>send\<close> sees first, once its channel send is done: a value
  on the result channel, or the one minute timer.\<close>

datatype wait_result = ResultArrives bool | TimerFires

text \<open>A goroutine blocked in \<open>self.msgChan <- unit\<close>: the unit it is sending, and what the
  \<open>select\<close> that follows will see once a receiver has released it.\<close>

record parked_send =
  sending :: sSendUnit
  then_sees :: wait_result

text \<open>The message channel as the Go runtime keeps it: the capacity it was made with, the
  units it buffers, and the senders blocked on it, oldest first. \<open>chan_id\<close> tells one
  channel made by \<open>make\<close> from another. Only the dispatcher holds the channel; workers
  reach it through their \<open>man\<close> pointer on every iteration.\<close>

record msg_chan =
  chan_id :: nat
  cap :: nat
  buf :: "sSendUnit list"
  sendq :: "parked_send list"

record SEmailSender =
  msgChan :: "msg_chan option"
  senders :: "sSender list"
  senderNum :: int
  chanelSize :: int
  configCache :: config

text \<open>The state of the process: the dispatcher, the heap of stop channels (the set of
  those already closed, and the number made so far), the count of message channels and
  result channels made so far, the goroutines started with \<open>go sender.Run()\<close>, and the
  dialing goroutines of \<open>validateConfig\<close> that were still running when it returned. A
  worker goroutine works on its own copy of the \<open>sSender\<close> struct (the slice holds
  another copy); the copies share the stop channel. An entry is \<open>None\<close> once its loop
  has ended.\<close>

record world =
  man :: SEmailSender
  chansMade :: nat
  closedStops :: "nat set"
  stopsMade :: nat
  resultsMade :: nat
  goroutines :: "sSender option list"
  dialing :: "Dialer list"

definition IsReady :: "SEmailSender \<Rightarrow> bool" where
  "IsReady self = (msgChan self \<noteq> None)"

definition zero_sSender :: sSender where
  "zero_sSender =
     \<lparr>number = 0, dialer = None, sender = None, open = False, stopC = None,
      closeFailedTimes = 0\<rparr>"

text \<open>\<open>NewSender\<close> with \<open>config.GetSenderNum()\<close> and \<open>part.ChannelSize\<close> as arguments;
  \<open>make([]sSender, n)\<close> panics for a negative \<open>n\<close>.\<close>

definition NewSender :: "int \<Rightarrow> int \<Rightarrow> panic + SEmailSender" where
  "NewSender getSenderNum channelSize =
     (if getSenderNum < 0 then Inl MakesliceLenOutOfRange
      else Inr \<lparr>msgChan = None, senders = replicate (nat getSenderNum) zero_sSender,
                senderNum = getSenderNum, chanelSize = channelSize,
                configCache = Map.empty\<rparr>)"

definition start_world :: "SEmailSender \<Rightarrow> world" where
  "start_world self =
     \<lparr>man = self, chansMade = 0, closedStops = {}, stopsMade = 0, resultsMade = 0,
      goroutines = [], dialing = []\<rparr>"

text \<open>\<open>stop\<close>: nothing for a nil channel, else \<open>close\<close>, which panics on a channel that
  is closed already.\<close>

definition stop :: "sSender \<Rightarrow> world \<Rightarrow> panic + world" where
  "stop self w =
     (case stopC self of
        None \<Rightarrow> Inr w
      | Some c \<Rightarrow>
          if c \<in> closedStops w then Inl CloseOfClosedChannel
          else Inr (w\<lparr>closedStops := insert c (closedStops w)\<rparr>))"

text \<open>The \<open>range\<close> loop of \<open>restartSender\<close>.\<close>

fun stop_all :: "sSender list \<Rightarrow> world \<Rightarrow> panic + world" where
  "stop_all [] w = Inr w"
| "stop_all (s # ss) w = (case stop s w of Inl p \<Rightarrow> Inl p | Inr w' \<Rightarrow> stop_all ss w')"

text \<open>The \<open>for i := 0; i < self.senderNum; i++\<close> loop of \<open>initSender\<close>, over the indices
  it visits.\<close>

fun spawn_senders :: "Dialer \<Rightarrow> nat list \<Rightarrow> world \<Rightarrow> panic + world" where
  "spawn_senders d [] w = Inr w"
| "spawn_senders d (i # rest) w =
     (let worker = \<lparr>number = int i + 1, dialer = Some d, sender = None, open = False,
                     stopC = Some (stopsMade w), closeFailedTimes = 0\<rparr>
      in if i < length (senders (man w)) then
           spawn_senders d rest
             (w\<lparr>man := (man w)\<lparr>senders := (senders (man w))[i := worker]\<rparr>,
                stopsMade := Suc (stopsMade w),
                goroutines := goroutines w @ [Some worker]\<rparr>)
         else Inl IndexOutOfRange)"

definition initSender :: "world \<Rightarrow> panic + world \<times> config_error option" where
  "initSender w =
     (case BatchGet (configCache (man w)) [HOSTNAME, PASSWORD, USERNAME, HOSTPORT] of
        (vals, ok, noKey) \<Rightarrow>
          if \<not> ok then Inr (w, Some (WrapConfigMiss noKey))
          else
            let hostName = vals ! 0; password = vals ! 1; userName = vals ! 2;
                hostPortStr = vals ! 3;
                hostPort = fst (Atoi hostPortStr);
                dialer = NewDialer hostName hostPort userName password;
                sslg = fst (Get (configCache (man w)) GLOBALSSL);
                ssl = fst (Get (configCache (man w)) SSL);
                dialer = (if sslg = ''true'' \<or> ssl = ''true'' then dialer\<lparr>dSSL := True\<rparr>
                          else dialer\<lparr>dSSL := False, dTLSConfig := Some True\<rparr>)
            in (case (if msgChan (man w) = None then
                        (if chanelSize (man w) < 0 then Inl MakechanSizeOutOfRange
                         else Inr (w\<lparr>man := (man w)\<lparr>msgChan :=
                                       Some \<lparr>chan_id = chansMade w,
                                             cap = nat (chanelSize (man w)), buf = [],
                                             sendq = []\<rparr>\<rparr>,
                                     chansMade := Suc (chansMade w)\<rparr>))
                      else Inr w) of
                  Inl p \<Rightarrow> Inl p
                | Inr w1 \<Rightarrow>
                    (case spawn_senders dialer [0 ..< nat (senderNum (man w1))] w1 of
                       Inl p \<Rightarrow> Inl p
                     | Inr w2 \<Rightarrow> Inr (w2, None))))"

definition restartSender :: "world \<Rightarrow> panic + world \<times> config_error option" where
  "restartSender w =
     (case stop_all (senders (man w)) w of
        Inl p \<Rightarrow> Inl p
      | Inr w' \<Rightarrow> initSender w')"

definition UpdateConfig :: "config \<Rightarrow> world \<Rightarrow> panic + world \<times> config_error option" where
  "UpdateConfig configs w =
     restartSender
       (w\<lparr>man := (man w)\<lparr>configCache := BatchSet (Clean (configCache (man w))) configs\<rparr>\<rparr>)"

subsection \<open>Validation\<close>

record SConnectInfo =
  Hostname :: string
  Hostport :: int
  Username :: string
  Password :: string
  Ssl :: bool

text \<open>What the \<open>select\<close> of \<open>validateConfig\<close> sees first: the 10 second ticker, or the
  value on \<open>errChan\<close>, which the dialing goroutine puts there once \<open>dialer.Dial()\<close> has
  answered.\<close>

datatype dial_race = TickerFires | DialFinishes "error + SendCloser"

text \<open>\<open>validateConfig\<close> with the goroutine it starts. The goroutine builds the dialer and
  dials; on an error it puts the error on \<open>errChan\<close>, otherwise it closes the connection
  and puts nil there. When the ticker fires first the function returns "timeout" and the
  goroutine is left running.\<close>

definition validateConfig ::
    "(Dialer \<Rightarrow> dial_race) \<Rightarrow> SConnectInfo \<Rightarrow> world \<Rightarrow> error option \<times> world \<times> effect list" where
  "validateConfig net connInfo w =
     (let dialer = NewDialer (Hostname connInfo) (Hostport connInfo) (Username connInfo)
                     (Password connInfo);
          dialer = (if Ssl connInfo then dialer\<lparr>dSSL := True\<rparr>
                    else dialer\<lparr>dSSL := False, dTLSConfig := Some True\<rparr>)
      in case net dialer of
           TickerFires \<Rightarrow> (Some (Error ''timeout''), w\<lparr>dialing := dialing w @ [dialer]\<rparr>, [])
         | DialFinishes (Inl err) \<Rightarrow> (Some err, w, [Dial])
         | DialFinishes (Inr conn) \<Rightarrow> (None, w, [Dial, CloseConn conn]))"

definition config_value :: "config \<Rightarrow> string \<Rightarrow> string" where
  "config_value configs key = (case configs key of None \<Rightarrow> [] | Some v \<Rightarrow> v)"

text \<open>The \<open>switch\<close> of \<open>ValidateConfig\<close> on the text of the error.\<close>

definition failure_message :: "string \<Rightarrow> string" where
  "failure_message text =
     (if Contains text ''535 Error'' then ''Authentication failed''
      else if Contains text ''timeout'' then ''Connect timeout''
      else if Contains text ''no such host'' then ''No such host''
      else text)"

definition ValidateConfig ::
    "(Dialer \<Rightarrow> dial_race) \<Rightarrow> config \<Rightarrow> world
       \<Rightarrow> (bool \<times> string \<times> error option) \<times> world \<times> effect list" where
  "ValidateConfig net configs w =
     (case CheckMap configs [HOSTNAME, HOSTPORT, USERNAME, PASSWORD] of
        (vals, ok, noKey) \<Rightarrow>
          if \<not> ok then ((False, [], Some (Error (''require '' @ noKey))), w, [])
          else
            (case Atoi (vals ! 1) of
               (port, Some e) \<Rightarrow>
                 ((False, [], Some (Error (''invalid hostport '' @ vals ! 1))), w, [])
             | (port, None) \<Rightarrow>
                 let conn = \<lparr>Hostname = vals ! 0, Hostport = port, Username = vals ! 2,
                             Password = vals ! 3, Ssl = False\<rparr>;
                     conn = (if config_value configs GLOBALSSL = ''true'' then conn\<lparr>Ssl := True\<rparr>
                             else if config_value configs SSL = ''true'' then conn\<lparr>Ssl := True\<rparr>
                             else conn)
                 in (case validateConfig net conn w of
                       (None, w', effs) \<Rightarrow> ((True, [], None), w', effs)
                     | (Some err, w', effs) \<Rightarrow>
                         ((False, failure_message (Error_text err), None), w', effs))))"

subsection \<open>Sending\<close>

text \<open>Modelled from the spec: \<open>common.SendParam\<close> is not under src/; these are the fields
  that \<open>Send\<close> and \<open>send\<close> read.\<close>

record SendParam =
  Contact :: string
  Topic :: string
  Title :: string
  Message :: string

text \<open>The timer and the \<open>select\<close> of \<open>send\<close> (lines 140 to 150), which run once the
  channel send is done.\<close>

definition await_result :: "wait_result \<Rightarrow> error option" where
  "await_result wr =
     (case wr of
        ResultArrives suc \<Rightarrow> if \<not> suc then Some (Error ''send error'') else None
      | TimerFires \<Rightarrow> Some (Error ''send error, time out''))"

text \<open>Where a call of \<open>send\<close> stands when it can go no further by itself: it has
  returned; or it is in a send on a nil channel, which blocks for ever; or it is parked
  in the channel send, with its unit in the channel's queue of senders, until a worker
  receives.\<close>

datatype send_outcome = Returned "error option" | BlockedOnNilChannel | WaitsInChannelSend

definition send :: "SendParam \<Rightarrow> wait_result \<Rightarrow> world \<Rightarrow> world \<times> send_outcome" where
  "send args wr w =
     (let sendAddress = fst (Get (configCache (man w)) SENDERADDRESS);
          sendAddress = (if sendAddress = [] then fst (Get (configCache (man w)) USERNAME)
                         else sendAddress);
          gmsg = \<lparr>From = sendAddress, To = Contact args, Subject = Title args,
                  Body = Message args\<rparr>;
          ret = resultsMade w;
          w = w\<lparr>resultsMade := Suc (resultsMade w)\<rparr>
      in case msgChan (man w) of
           None \<Rightarrow> (w, BlockedOnNilChannel)
         | Some c \<Rightarrow>
             if length (buf c) < cap c then
               (w\<lparr>man := (man w)\<lparr>msgChan :=
                     Some (c\<lparr>buf := buf c @ [\<lparr>message = gmsg, result = ret\<rparr>]\<rparr>)\<rparr>\<rparr>,
                Returned (await_result wr))
             else
               (w\<lparr>man := (man w)\<lparr>msgChan :=
                     Some (c\<lparr>sendq := sendq c @
                             [\<lparr>sending = \<lparr>message = gmsg, result = ret\<rparr>,
                               then_sees = wr\<rparr>]\<rparr>)\<rparr>\<rparr>,
                WaitsInChannelSend))"

definition Send :: "SendParam \<Rightarrow> wait_result \<Rightarrow> world \<Rightarrow> world \<times> send_outcome" where
  "Send params wr w = send params wr w"

text \<open>Modelled from the spec: \<open>common.BatchSend\<close> and \<open>common.FailedRecord\<close> are not
  under src/. \<open>BatchSend\<close> invokes \<open>Send\<close> once per message and collects the failures
  into a report, without stopping at a failure. The report here holds the failures of
  the sends that have returned; a \<open>Send\<close> parked in its channel send returns when a
  worker releases it.\<close>

record FailedRecord =
  failedContact :: string
  reason :: string

fun BatchSend :: "(SendParam \<times> wait_result) list \<Rightarrow> world \<Rightarrow> world \<times> FailedRecord list" where
  "BatchSend [] w = (w, [])"
| "BatchSend ((params, wr) # rest) w =
     (case Send params wr w of
        (w', out) \<Rightarrow>
          (case BatchSend rest w' of
             (w'', failed) \<Rightarrow>
               (w'',
                (case out of
                   Returned (Some err) \<Rightarrow>
                     \<lparr>failedContact = Contact params, reason = Error_text err\<rparr> # failed
                 | _ \<Rightarrow> failed))))"

subsection \<open>Scheduling a worker\<close>

text \<open>A receive on the message channel, as the Go runtime performs it. With a unit in
  the buffer the receiver takes the oldest one, and the oldest blocked sender, if there
  is one, puts its unit at the end of the buffer and is released. With an empty buffer
  (an unbuffered channel) the receiver takes the unit of the oldest blocked sender
  directly and releases it. With neither, the receive is not ready. The result is the
  unit received, the channel afterwards, and the senders released.\<close>

definition chan_recv :: "msg_chan \<Rightarrow> (sSendUnit \<times> msg_chan \<times> parked_send list) option" where
  "chan_recv c =
     (case buf c of
        u # us \<Rightarrow>
          (case sendq c of
             [] \<Rightarrow> Some (u, c\<lparr>buf := us\<rparr>, [])
           | p # ps \<Rightarrow> Some (u, c\<lparr>buf := us @ [sending p], sendq := ps\<rparr>, [p]))
      | [] \<Rightarrow>
          (case sendq c of
             [] \<Rightarrow> None
           | p # ps \<Rightarrow> Some (sending p, c\<lparr>sendq := ps\<rparr>, [p])))"

text \<open>A released \<open>send\<close> goes on to its timer and \<open>select\<close> and returns: the result
  channel of its unit, and the value it returns.\<close>

definition released_returns :: "parked_send list \<Rightarrow> (nat \<times> error option) list" where
  "released_returns rel = map (\<lambda>p. (result (sending p), await_result (then_sees p))) rel"

text \<open>A goroutine takes one iteration of its loop. Which case of the \<open>select\<close> it takes
  is the scheduler's choice among the ready ones: the receive when the channel holds a
  unit or a blocked sender, the stop case when the stop channel is closed, the timer
  after thirty idle seconds. The result is \<open>None\<close> when the chosen case is not ready or
  the goroutine has ended; otherwise the state, the effects of the iteration and the
  sends that returned because of it.\<close>

datatype choice = TakeMsg | TakeStop | TakeIdle

definition after_iteration ::
    "nat \<Rightarrow> sSender \<times> effect list \<times> control \<Rightarrow> parked_send list \<Rightarrow> world
       \<Rightarrow> panic + world \<times> effect list \<times> (nat \<times> error option) list" where
  "after_iteration g r rel w =
     (case r of
        (self', effs, Panicked p) \<Rightarrow> Inl p
      | (self', effs, ContinueLoop) \<Rightarrow>
          Inr (w\<lparr>goroutines := (goroutines w)[g := Some self']\<rparr>, effs, released_returns rel)
      | (self', effs, BreakLoop) \<Rightarrow>
          Inr (w\<lparr>goroutines := (goroutines w)[g := None]\<rparr>, effs, released_returns rel))"

definition worker_step ::
    "nat \<Rightarrow> choice \<Rightarrow> transport \<Rightarrow> world
       \<Rightarrow> (panic + world \<times> effect list \<times> (nat \<times> error option) list) option" where
  "worker_step g ch tr w =
     (if g < length (goroutines w) then
        (case goroutines w ! g of
           None \<Rightarrow> None
         | Some self \<Rightarrow>
             (case ch of
                TakeMsg \<Rightarrow>
                  (case msgChan (man w) of
                     None \<Rightarrow> None
                   | Some c \<Rightarrow>
                       (case chan_recv c of
                          None \<Rightarrow> None
                        | Some (u, c', rel) \<Rightarrow>
                            Some (after_iteration g (Run_iteration tr (RecvMsg u) self) rel
                                    (w\<lparr>man := (man w)\<lparr>msgChan := Some c'\<rparr>\<rparr>))))
              | TakeStop \<Rightarrow>
                  (case stopC self of
                     None \<Rightarrow> None
                   | Some s \<Rightarrow>
                       if s \<in> closedStops w
                       then Some (after_iteration g (Run_iteration tr RecvStop self) [] w)
                       else None)
              | TakeIdle \<Rightarrow> Some (after_iteration g (Run_iteration tr AfterIdle self) [] w)))
      else None)"

subsection \<open>The caller-facing operations\<close>

datatype call =
  CallIsReady
  | CallUpdateConfig config
  | CallValidateConfig "Dialer \<Rightarrow> dial_race" config
  | CallSend SendParam wait_result
  | CallBatchSend "(SendParam \<times> wait_result) list"
  | WorkerStep nat choice transport

datatype reply =
  IsReadyReturns bool
  | UpdateConfigReturns "config_error option"
  | ValidateConfigReturns "bool \<times> string \<times> error option" "effect list"
  | SendEnds send_outcome
  | BatchSendReturns "FailedRecord list"
  | WorkerDid "effect list" "(nat \<times> error option) list"
  | WorkerNotReady

fun exec :: "call \<Rightarrow> world \<Rightarrow> panic + world \<times> reply" where
  "exec CallIsReady w = Inr (w, IsReadyReturns (IsReady (man w)))"
| "exec (CallUpdateConfig configs) w =
     (case UpdateConfig configs w of
        Inl p \<Rightarrow> Inl p
      | Inr (w', err) \<Rightarrow> Inr (w', UpdateConfigReturns err))"
| "exec (CallValidateConfig net configs) w =
     (case ValidateConfig net configs w of
        (r, w', effs) \<Rightarrow> Inr (w', ValidateConfigReturns r effs))"
| "exec (CallSend params wr) w =
     (case Send params wr w of (w', out) \<Rightarrow> Inr (w', SendEnds out))"
| "exec (CallBatchSend batch) w =
     (case BatchSend batch w of (w', failed) \<Rightarrow> Inr (w', BatchSendReturns failed))"
| "exec (WorkerStep g ch tr) w =
     (case worker_step g ch tr w of
        None \<Rightarrow> Inr (w, WorkerNotReady)
      | Some (Inl p) \<Rightarrow> Inl p
      | Some (Inr (w', effs, rets)) \<Rightarrow> Inr (w', WorkerDid effs rets))"

fun run :: "call list \<Rightarrow> world \<Rightarrow> panic + world \<times> reply list" where
  "run [] w = Inr (w, [])"
| "run (c # cs) w =
     (case exec c w of
        Inl p \<Rightarrow> Inl p
      | Inr (w', r) \<Rightarrow>
          (case run cs w' of
             Inl p \<Rightarrow> Inl p
           | Inr (w'', rs) \<Rightarrow> Inr (w'', r # rs)))"

fun is_UpdateConfig :: "call \<Rightarrow> bool" where
  "is_UpdateConfig (CallUpdateConfig configs) = True"
| "is_UpdateConfig c = False"

subsection \<open>States in which a restart goes through\<close>

text \<open>The stop channels held by the slots of the slice.\<close>

fun stopCs :: "sSender list \<Rightarrow> nat list" where
  "stopCs [] = []"
| "stopCs (s # ss) = (case stopC s of None \<Rightarrow> stopCs ss | Some c \<Rightarrow> c # stopCs ss)"

text \<open>The slots hold distinct stop channels, none of them closed; the slice has a slot
  for every worker; and a channel that is still to be made has a capacity that \<open>make\<close>
  accepts. \<open>NewSender\<close> gives such a state, and so does every \<open>UpdateConfig\<close> that
  returns nil.\<close>

definition restartable :: "world \<Rightarrow> bool" where
  "restartable w =
     (distinct (stopCs (senders (man w)))
      \<and> set (stopCs (senders (man w))) \<inter> closedStops w = {}
      \<and> nat (senderNum (man w)) \<le> length (senders (man w))
      \<and> (case msgChan (man w) of None \<Rightarrow> 0 \<le> chanelSize (man w) | Some c \<Rightarrow> True))"

subsection \<open>Concrete inputs\<close>

definition demo_dialer :: Dialer where
  "demo_dialer =
     \<lparr>dHost = ''smtp.example.com'', dPort = 587, dUsername = ''u'', dPassword = ''p'',
      dSSL = False, dTLSConfig = Some True\<rparr>"

text \<open>A worker as \<open>initSender\<close> creates it, and the same worker with a connection open.\<close>

definition fresh_worker :: sSender where
  "fresh_worker =
     \<lparr>number = 1, dialer = Some demo_dialer, sender = None, open = False, stopC = Some 0,
      closeFailedTimes = 0\<rparr>"

definition open_worker :: sSender where
  "open_worker = fresh_worker\<lparr>sender := Some (Conn 0), open := True\<rparr>"

definition unit0 :: sSendUnit where
  "unit0 = \<lparr>message = \<lparr>From = ''u'', To = ''a@example.com'', Subject = ''first'', Body = ''x''\<rparr>,
            result = 0\<rparr>"

definition unit1 :: sSendUnit where
  "unit1 = \<lparr>message = \<lparr>From = ''u'', To = ''b@example.com'', Subject = ''second'', Body = ''y''\<rparr>,
            result = 1\<rparr>"

definition transport_ok :: transport where
  "transport_ok = \<lparr>dial_result = Inr (Conn 0), send_result = None, close_result = None\<rparr>"

definition transport_send_fails :: transport where
  "transport_send_fails =
     \<lparr>dial_result = Inr (Conn 0), send_result = Some (Error ''broken pipe''),
      close_result = None\<rparr>"

definition transport_close_fails :: transport where
  "transport_close_fails =
     \<lparr>dial_result = Inr (Conn 0), send_result = None,
      close_result = Some (Error ''use of closed network connection'')\<rparr>"

definition full_config :: config where
  "full_config =
     [HOSTNAME \<mapsto> ''smtp.example.com'', HOSTPORT \<mapsto> ''587'', USERNAME \<mapsto> ''u'',
      PASSWORD \<mapsto> ''p'']"

definition no_password_config :: config where
  "no_password_config =
     [HOSTNAME \<mapsto> ''smtp.example.com'', HOSTPORT \<mapsto> ''587'', USERNAME \<mapsto> ''u'']"

text \<open>The dispatcher \<open>NewSender\<close> builds for one worker and a channel of eight units.\<close>

definition demo_man :: SEmailSender where
  "demo_man =
     \<lparr>msgChan = None, senders = [zero_sSender], senderNum = 1, chanelSize = 8,
      configCache = Map.empty\<rparr>"

definition demo_world :: world where
  "demo_world = start_world demo_man"

definition demo_param :: SendParam where
  "demo_param = \<lparr>Contact = ''a@example.com'', Topic = ''topic'', Title = ''title'',
                 Message = ''hello''\<rparr>"

text \<open>The state after \<open>UpdateConfig\<close> with the full configuration on the new dispatcher.\<close>

definition configured_world :: world where
  "configured_world =
     \<lparr>man = \<lparr>msgChan = Some \<lparr>chan_id = 0, cap = 8, buf = [], sendq = []\<rparr>,
             senders = [fresh_worker], senderNum = 1, chanelSize = 8,
             configCache = full_config\<rparr>,
      chansMade = 1, closedStops = {}, stopsMade = 1, resultsMade = 0,
      goroutines = [Some fresh_worker], dialing = []\<rparr>"

definition demo_calls :: "call list" where
  "demo_calls =
     [CallSend demo_param (ResultArrives True), WorkerStep 0 TakeMsg transport_ok,
      CallBatchSend [(demo_param, TimerFires)], CallValidateConfig (\<lambda>d. TickerFires) full_config,
      CallIsReady]"

text \<open>Configurations whose port is not a decimal integer.\<close>

definition only_port_config :: config where
  "only_port_config = [HOSTPORT \<mapsto> ''abc'']"

definition bad_port_config :: config where
  "bad_port_config =
     [HOSTNAME \<mapsto> ''smtp.example.com'', HOSTPORT \<mapsto> ''abc'', USERNAME \<mapsto> ''u'',
      PASSWORD \<mapsto> ''p'']"

definition overflow_port_config :: config where
  "overflow_port_config =
     [HOSTNAME \<mapsto> ''smtp.example.com'', HOSTPORT \<mapsto> ''99999999999999999999x'',
      USERNAME \<mapsto> ''u'', PASSWORD \<mapsto> ''p'']"

text \<open>The configured dispatcher with two units waiting in the queue, and the state a
  restart leaves it in: the old worker signalled to stop, a new worker started, the
  queue as it was.\<close>

definition queued_world :: world where
  "queued_world =
     configured_world
       \<lparr>man := (man configured_world)
                 \<lparr>msgChan := Some \<lparr>chan_id = 0, cap = 8, buf = [unit0, unit1], sendq = []\<rparr>\<rparr>\<rparr>"

definition restarted_world :: world where
  "restarted_world =
     \<lparr>man = \<lparr>msgChan = Some \<lparr>chan_id = 0, cap = 8, buf = [unit0, unit1], sendq = []\<rparr>,
             senders = [fresh_worker\<lparr>stopC := Some 1\<rparr>],
             senderNum = 1, chanelSize = 8, configCache = full_config\<rparr>,
      chansMade = 1, closedStops = {0}, stopsMade = 2, resultsMade = 0,
      goroutines = [Some fresh_worker, Some (fresh_worker\<lparr>stopC := Some 1\<rparr>)],
      dialing = []\<rparr>"

text \<open>The configured dispatcher had \<open>ChannelSize\<close> been 0: the message channel is
  unbuffered.\<close>

definition unbuffered_world :: world where
  "unbuffered_world =
     configured_world
       \<lparr>man := (man configured_world)
                 \<lparr>msgChan := Some \<lparr>chan_id = 0, cap = 0, buf = [], sendq = []\<rparr>,
                  chanelSize := 0\<rparr>\<rparr>"

text \<open>The configured dispatcher had \<open>ChannelSize\<close> been 1, with one unit in the queue:
  the message channel is full.\<close>

definition full_world :: world where
  "full_world =
     configured_world
       \<lparr>man := (man configured_world)
                 \<lparr>msgChan := Some \<lparr>chan_id = 0, cap = 1, buf = [unit0], sendq = []\<rparr>,
                  chanelSize := 1\<rparr>,
        resultsMade := 1\<rparr>"

section \<open>Properties\<close>

subsection \<open>Evaluating the concrete inputs\<close>

lemmas demo_eval =
  UpdateConfig_def restartSender_def initSender_def stop_def BatchSet_def Clean_def Get_def
  full_config_def HOSTNAME_def HOSTPORT_def USERNAME_def PASSWORD_def SSL_def GLOBALSSL_def
  SENDERADDRESS_def Atoi_def is_digit_def digit_val_def NewDialer_def demo_world_def
  demo_man_def start_world_def zero_sSender_def configured_world_def fresh_worker_def
  demo_dialer_def queued_world_def restarted_world_def unbuffered_world_def full_world_def
  Let_def

lemmas step_eval =
  Send_def send_def await_result_def worker_step_def chan_recv_def released_returns_def
  after_iteration_def Run_iteration_def transport_ok_def unit0_def unit1_def demo_param_def

lemma demo_calls_run: "\<exists>w'' rs. run demo_calls configured_world = Inr (w'', rs)"
  by (simp add: demo_calls_def demo_eval step_eval ValidateConfig_def validateConfig_def)


subsection \<open>What a restart keeps\<close>

lemma stop_keeps:
  "stop s w = Inr w' \<Longrightarrow>
   man w' = man w \<and> chansMade w' = chansMade w \<and> goroutines w' = goroutines w
   \<and> stopsMade w' = stopsMade w \<and> resultsMade w' = resultsMade w"
  by (auto simp: stop_def split: option.splits if_splits)

lemma stop_all_closes:
  "stop_all ss w = Inr w' \<Longrightarrow> closedStops w' = closedStops w \<union> set (stopCs ss)"
proof (induction ss arbitrary: w)
  case Nil
  then show ?case by simp
next
  case (Cons s ss)
  then obtain w1 where s1: "stop s w = Inr w1" and s2: "stop_all ss w1 = Inr w'"
    by (auto split: sum.splits)
  from s1 have "closedStops w1 = closedStops w \<union> set (stopCs [s])"
    by (auto simp: stop_def split: option.splits if_splits)
  with Cons.IH [OF s2] show ?case by (auto split: option.splits)
qed

lemma stop_all_keeps:
  "stop_all ss w = Inr w' \<Longrightarrow>
   man w' = man w \<and> chansMade w' = chansMade w \<and> goroutines w' = goroutines w
   \<and> stopsMade w' = stopsMade w \<and> resultsMade w' = resultsMade w"
proof (induction ss arbitrary: w)
  case Nil
  then show ?case by simp
next
  case (Cons s ss)
  then obtain w1 where s1: "stop s w = Inr w1" and s2: "stop_all ss w1 = Inr w'"
    by (auto split: sum.splits)
  from Cons.IH [OF s2] stop_keeps [OF s1] show ?case by simp
qed

lemma spawn_senders_keeps:
  "spawn_senders d idxs w = Inr w' \<Longrightarrow>
   msgChan (man w') = msgChan (man w) \<and> chansMade w' = chansMade w
   \<and> configCache (man w') = configCache (man w) \<and> closedStops w' = closedStops w
   \<and> senderNum (man w') = senderNum (man w) \<and> chanelSize (man w') = chanelSize (man w)
   \<and> resultsMade w' = resultsMade w"
proof (induction idxs arbitrary: w)
  case Nil
  then show ?case by simp
next
  case (Cons i rest)
  from Cons.prems have lt: "i < length (senders (man w))"
    by (simp add: Let_def split: if_splits)
  with Cons.prems Cons.IH show ?case
    by (fastforce simp: Let_def)
qed

lemma initSender_keeps_queue:
  "initSender w = Inr (w', err) \<Longrightarrow> msgChan (man w) = Some c \<Longrightarrow>
   msgChan (man w') = Some c \<and> chansMade w' = chansMade w"
  by (auto simp: initSender_def Let_def split: prod.splits if_splits sum.splits
      dest!: spawn_senders_keeps)

lemma initSender_makes_queue:
  "initSender w = Inr (w', None) \<Longrightarrow> msgChan (man w') \<noteq> None"
  by (auto simp: initSender_def Let_def split: prod.splits if_splits sum.splits
      dest!: spawn_senders_keeps)

lemma restartSender_makes_queue:
  "restartSender w = Inr (w', None) \<Longrightarrow> msgChan (man w') \<noteq> None"
  by (auto simp: restartSender_def split: sum.splits dest: initSender_makes_queue)

subsection \<open>Readiness\<close>

lemma send_keeps_ready: "IsReady (man w) \<Longrightarrow> IsReady (man (fst (send p wr w)))"
  by (auto simp: send_def IsReady_def Let_def split: option.splits)

lemma BatchSend_keeps_ready: "IsReady (man w) \<Longrightarrow> IsReady (man (fst (BatchSend batch w)))"
proof (induction batch arbitrary: w)
  case Nil
  then show ?case by simp
next
  case (Cons a batch)
  obtain params wr where a: "a = (params, wr)" by (cases a)
  obtain w1 out where s: "send params wr w = (w1, out)" by (cases "send params wr w")
  from send_keeps_ready [OF Cons.prems, of params wr] s have "IsReady (man w1)" by simp
  from Cons.IH [OF this] show ?case
    by (auto simp: a s Send_def split: prod.splits)
qed

lemma after_iteration_msgChan:
  "after_iteration g r rel w = Inr (w', effs, rets) \<Longrightarrow> man w' = man w"
  by (auto simp: after_iteration_def split: prod.splits control.splits)

lemma worker_step_keeps_ready:
  "worker_step g ch tr w = Some (Inr (w', effs, rets)) \<Longrightarrow> IsReady (man w)
   \<Longrightarrow> IsReady (man w')"
  by (auto simp: worker_step_def IsReady_def
      split: if_splits option.splits choice.splits prod.splits
      dest!: after_iteration_msgChan)

lemma validateConfig_frame:
  "validateConfig net conn w = (err, w', effs) \<Longrightarrow>
   man w' = man w \<and> goroutines w' = goroutines w \<and> closedStops w' = closedStops w
   \<and> stopsMade w' = stopsMade w \<and> chansMade w' = chansMade w
   \<and> resultsMade w' = resultsMade w"
  by (auto simp: validateConfig_def Let_def split: dial_race.splits sum.splits)

lemma ValidateConfig_frame:
  "ValidateConfig net configs w = (r, w', effs) \<Longrightarrow>
   man w' = man w \<and> goroutines w' = goroutines w \<and> closedStops w' = closedStops w
   \<and> stopsMade w' = stopsMade w \<and> chansMade w' = chansMade w
   \<and> resultsMade w' = resultsMade w"
  by (auto simp: ValidateConfig_def Let_def split: prod.splits if_splits option.splits
      dest!: validateConfig_frame)

lemma exec_keeps_ready:
  "exec c w = Inr (w', r) \<Longrightarrow> \<not> is_UpdateConfig c \<Longrightarrow> IsReady (man w) \<Longrightarrow> IsReady (man w')"
proof (cases c)
  case (CallSend params wr)
  assume "exec c w = Inr (w', r)" "IsReady (man w)"
  with CallSend send_keeps_ready [of w params wr] show ?thesis
    by (auto simp: Send_def split: prod.splits)
next
  case (CallBatchSend batch)
  assume "exec c w = Inr (w', r)" "IsReady (man w)"
  with CallBatchSend BatchSend_keeps_ready [of w batch] show ?thesis
    by (auto split: prod.splits)
next
  case (WorkerStep g ch tr)
  assume "exec c w = Inr (w', r)" "IsReady (man w)"
  with WorkerStep show ?thesis
    by (auto split: option.splits sum.splits prod.splits dest: worker_step_keeps_ready)
next
  case (CallValidateConfig net configs)
  assume "exec c w = Inr (w', r)" "IsReady (man w)"
  with CallValidateConfig show ?thesis
    by (auto split: prod.splits dest!: ValidateConfig_frame)
qed auto

lemma run_keeps_ready:
  "run cs w = Inr (w', rs) \<Longrightarrow> \<forall>c\<in>set cs. \<not> is_UpdateConfig c \<Longrightarrow> IsReady (man w)
   \<Longrightarrow> IsReady (man w')"
proof (induction cs arbitrary: w rs)
  case Nil
  then show ?case by simp
next
  case (Cons c cs)
  from Cons.prems(1) obtain w1 r rs1 where e: "exec c w = Inr (w1, r)"
    and r: "run cs w1 = Inr (w', rs1)"
    by (auto split: sum.splits prod.splits)
  from exec_keeps_ready [OF e] Cons.prems have "IsReady (man w1)" by simp
  from Cons.IH [OF r _ this] Cons.prems(2) show ?case by simp
qed

text \<open>
  C7 (\<open>IsReady\<close> is true iff the message queue has been constructed; after an
  \<open>UpdateConfig\<close> that returns nil it is true and stays true over every later call
  that is not an \<open>UpdateConfig\<close>: sends, batch sends, steps of the workers,
  validations).
\<close>

theorem C7_ready_after_update:
  "(IsReady (man w) \<longleftrightarrow> (\<exists>c. msgChan (man w) = Some c))
   \<and> (UpdateConfig configs w = Inr (w', None) \<longrightarrow>
        IsReady (man w')
        \<and> (\<forall>cs w'' rs. (\<forall>c\<in>set cs. \<not> is_UpdateConfig c) \<longrightarrow> run cs w' = Inr (w'', rs)
              \<longrightarrow> IsReady (man w'')))"
proof -
  have a: "IsReady (man w) \<longleftrightarrow> (\<exists>c. msgChan (man w) = Some c)"
    by (simp add: IsReady_def)
  have b: "IsReady (man w')" if "UpdateConfig configs w = Inr (w', None)"
    using that restartSender_makes_queue by (simp add: UpdateConfig_def IsReady_def)
  from a b run_keeps_ready show ?thesis by blast
qed

theorem C7_ready_after_update_witness:
  "UpdateConfig full_config demo_world = Inr (configured_world, None)
   \<and> IsReady (man configured_world)
   \<and> (case run demo_calls configured_world of
         Inr (w'', rs) \<Rightarrow> IsReady (man w'')
       | Inl p \<Rightarrow> False)"
proof -
  have u: "UpdateConfig full_config demo_world = Inr (configured_world, None)"
    by (simp add: demo_eval)
  have n: "\<forall>c\<in>set demo_calls. \<not> is_UpdateConfig c"
    by (simp add: demo_calls_def)
  obtain w'' rs where r: "run demo_calls configured_world = Inr (w'', rs)"
    using demo_calls_run by blast
  from C7_ready_after_update [of demo_world full_config configured_world] u n r
  have "IsReady (man configured_world) \<and> IsReady (man w'')"
    by blast
  with u n r show ?thesis by simp
qed

subsection \<open>Restarting twice\<close>

text \<open>
  C3 (stopping a worker is idempotent over any sequence of restarts). \<open>stop\<close> guards
  only the nil channel of a worker that was never started. After a successful
  \<open>UpdateConfig\<close>, an \<open>UpdateConfig\<close> whose \<open>initSender\<close> fails (a key is missing)
  has closed the stop channels and left them in the slice, and the next \<open>UpdateConfig\<close>
  closes them again: the process panics with "close of closed channel".
\<close>

theorem C3_restart_after_failed_init_panics:
  "NewSender 1 8 = Inr demo_man
   \<and> map_sum id snd (run [CallUpdateConfig full_config, CallUpdateConfig Map.empty] demo_world)
       = Inr [UpdateConfigReturns None, UpdateConfigReturns (Some (WrapConfigMiss ''hostname''))]
   \<and> run [CallUpdateConfig full_config, CallUpdateConfig Map.empty, CallUpdateConfig full_config]
         demo_world
       = Inl CloseOfClosedChannel
   \<and> stop fresh_worker (configured_world\<lparr>closedStops := {0}\<rparr>) = Inl CloseOfClosedChannel"
  by (simp add: NewSender_def demo_eval)

subsection \<open>The outcome of a send\<close>









subsection \<open>Validation\<close>

lemma CheckMap_four:
  "configs k1 = Some v1 \<Longrightarrow> configs k2 = Some v2 \<Longrightarrow> configs k3 = Some v3 \<Longrightarrow>
   CheckMap configs [k1, k2, k3, k4] =
     (case configs k4 of None \<Rightarrow> ([], False, k4) | Some v4 \<Rightarrow> ([v1, v2, v3, v4], True, []))"
  by (simp split: option.splits)

lemma HasPrefix_iff: "HasPrefix s p \<longleftrightarrow> (\<exists>r. s = p @ r)"
  by (induction s p rule: HasPrefix.induct) auto

lemma Contains_iff: "Contains s sub \<longleftrightarrow> (\<exists>a b. s = a @ sub @ b)"
proof (induction s)
  case Nil
  then show ?case by auto
next
  case (Cons c s)
  show ?case
  proof
    assume "Contains (c # s) sub"
    then consider "HasPrefix (c # s) sub" | "Contains s sub" by auto
    then show "\<exists>a b. c # s = a @ sub @ b"
    proof cases
      case 1
      then obtain r where "c # s = sub @ r" by (auto simp: HasPrefix_iff)
      then have "c # s = [] @ sub @ r" by simp
      then show ?thesis by blast
    next
      case 2
      with Cons.IH obtain a b where "s = a @ sub @ b" by blast
      then have "c # s = (c # a) @ sub @ b" by simp
      then show ?thesis by blast
    qed
  next
    assume "\<exists>a b. c # s = a @ sub @ b"
    then obtain a b where ab: "c # s = a @ sub @ b" by blast
    show "Contains (c # s) sub"
    proof (cases a)
      case Nil
      with ab have "HasPrefix (c # s) sub" by (auto simp: HasPrefix_iff)
      then show ?thesis by simp
    next
      case (Cons x a')
      with ab have "s = a' @ sub @ b" by simp
      with Cons.IH have "Contains s sub" by blast
      then show ?thesis by simp
    qed
  qed
qed

text \<open>
  C6, as stated (the message is "require password" when the password key is missing): the
  message returned is empty; "require password" is the text of the error.
\<close>

theorem C6_missing_password_message_is_empty:
  "fst (ValidateConfig (\<lambda>d. DialFinishes (Inr (Conn 0))) no_password_config demo_world)
     = (False, [], Some (Error ''require password''))
   \<and> fst (snd (fst (ValidateConfig (\<lambda>d. DialFinishes (Inr (Conn 0))) no_password_config
                      demo_world)))
       \<noteq> ''require password''"
  by (simp add: ValidateConfig_def no_password_config_def HOSTNAME_def HOSTPORT_def USERNAME_def
      PASSWORD_def)

text \<open>
  C6, amended: with host, port and username present and no password key,
  \<open>ValidateConfig\<close> returns \<open>(false, "", error "require password")\<close>, without dialing;
  with the password present, a port that \<open>Atoi\<close> accepts and a dial that fails, before
  the ticker, with an error whose text contains "535 Error", it returns
  \<open>(false, "Authentication failed", nil)\<close>.
\<close>

theorem C6_validate_outcomes:
  assumes "configs HOSTNAME = Some h" and "configs HOSTPORT = Some p"
    and "configs USERNAME = Some u"
  shows "(configs PASSWORD = None \<longrightarrow>
            ValidateConfig net configs w
              = ((False, [], Some (Error ''require password'')), w, []))
         \<and> (configs PASSWORD = Some pw \<and> snd (Atoi p) = None
              \<and> Contains (Error_text e) ''535 Error'' \<longrightarrow>
            fst (ValidateConfig (\<lambda>d. DialFinishes (Inl e)) configs w)
              = (False, ''Authentication failed'', None))"
  using assms
  by (auto simp: ValidateConfig_def CheckMap_four validateConfig_def failure_message_def
      Let_def PASSWORD_def split: prod.splits option.splits)

theorem C6_validate_outcomes_witness:
  "no_password_config HOSTNAME = Some ''smtp.example.com''
   \<and> no_password_config HOSTPORT = Some ''587''
   \<and> no_password_config USERNAME = Some ''u''
   \<and> no_password_config PASSWORD = None
   \<and> ValidateConfig (\<lambda>d. TickerFires) no_password_config demo_world
       = ((False, [], Some (Error ''require password'')), demo_world, [])
   \<and> full_config HOSTNAME = Some ''smtp.example.com''
   \<and> full_config HOSTPORT = Some ''587''
   \<and> full_config USERNAME = Some ''u''
   \<and> full_config PASSWORD = Some ''p''
   \<and> snd (Atoi ''587'') = None
   \<and> Contains (Error_text (Error ''535 Error: authentication failed'')) ''535 Error''
   \<and> fst (ValidateConfig
             (\<lambda>d. DialFinishes (Inl (Error ''535 Error: authentication failed'')))
             full_config demo_world)
       = (False, ''Authentication failed'', None)"
proof -
  have k: "no_password_config HOSTNAME = Some ''smtp.example.com''"
    "no_password_config HOSTPORT = Some ''587''"
    "no_password_config USERNAME = Some ''u''"
    "no_password_config PASSWORD = None"
    by (simp_all add: no_password_config_def HOSTNAME_def HOSTPORT_def USERNAME_def PASSWORD_def)
  have f: "full_config HOSTNAME = Some ''smtp.example.com''"
    "full_config HOSTPORT = Some ''587''"
    "full_config USERNAME = Some ''u''"
    "full_config PASSWORD = Some ''p''"
    by (simp_all add: full_config_def HOSTNAME_def HOSTPORT_def USERNAME_def PASSWORD_def)
  have a: "snd (Atoi ''587'') = None"
    by (simp add: Atoi_def is_digit_def digit_val_def)
  have c: "Contains (Error_text (Error ''535 Error: authentication failed'')) ''535 Error''"
    by simp
  from C6_validate_outcomes [OF k(1-3), where net = "\<lambda>d. TickerFires" and pw = "''p''"
      and e = "Error ''timeout''" and w = demo_world] k(4)
  have 1: "ValidateConfig (\<lambda>d. TickerFires) no_password_config demo_world
             = ((False, [], Some (Error ''require password'')), demo_world, [])"
    by simp
  from C6_validate_outcomes [OF f(1-3), where net = "\<lambda>d. TickerFires" and pw = "''p''"
      and e = "Error ''535 Error: authentication failed''" and w = demo_world] f(4) a c
  have 2: "fst (ValidateConfig
             (\<lambda>d. DialFinishes (Inl (Error ''535 Error: authentication failed'')))
             full_config demo_world) = (False, ''Authentication failed'', None)"
    by simp
  from k f a c 1 2 show ?thesis by simp
qed

lemma validateConfig_outcomes:
  "validateConfig net conn w = (err, w', effs) \<Longrightarrow>
   (err = Some (Error ''timeout'') \<and> effs = [] \<and> (\<exists>d. dialing w' = dialing w @ [d]))
   \<or> (err \<noteq> None \<and> effs = [Dial] \<and> dialing w' = dialing w)
   \<or> (err = None \<and> (\<exists>c. effs = [Dial, CloseConn c]) \<and> dialing w' = dialing w)"
  by (auto simp: validateConfig_def Let_def split: dial_race.splits sum.splits)

lemma timeout_message: "failure_message ''timeout'' = ''Connect timeout''"
  by (simp add: failure_message_def)

lemma ValidateConfig_cases:
  assumes v: "ValidateConfig net configs w = (r, w', effs)"
  shows "(w' = w \<and> effs = [] \<and> \<not> fst r)
         \<or> (\<exists>conn err. validateConfig net conn w = (err, w', effs)
               \<and> fst r = (err = None)
               \<and> (err = Some (Error ''timeout'') \<longrightarrow> r = (False, ''Connect timeout'', None)))"
proof -
  obtain vals ok noKey
    where cm: "CheckMap configs [HOSTNAME, HOSTPORT, USERNAME, PASSWORD] = (vals, ok, noKey)"
    by (cases "CheckMap configs [HOSTNAME, HOSTPORT, USERNAME, PASSWORD]") auto
  show ?thesis
  proof (cases ok)
    case False
    with v cm show ?thesis
      by (auto simp: ValidateConfig_def simp del: CheckMap.simps)
  next
    case True
    obtain port perr where at: "Atoi (vals ! 1) = (port, perr)"
      by (cases "Atoi (vals ! 1)") auto
    show ?thesis
    proof (cases perr)
      case (Some e)
      with v cm True at show ?thesis
        by (auto simp: ValidateConfig_def simp del: CheckMap.simps)
    next
      case None
      from v cm True at None
      have "(\<exists>conn. validateConfig net conn w = (None, w', effs) \<and> r = (True, [], None))
          \<or> (\<exists>conn e. validateConfig net conn w = (Some e, w', effs)
                \<and> r = (False, failure_message (Error_text e), None))"
        by (fastforce simp: ValidateConfig_def Let_def simp del: CheckMap.simps
            split: prod.splits option.splits)
      then obtain conn err where vc: "validateConfig net conn w = (err, w', effs)"
        and r: "r = (case err of None \<Rightarrow> (True, [], None)
                   | Some e \<Rightarrow> (False, failure_message (Error_text e), None))"
        by auto
      from r have ok: "fst r = (err = None)"
        by (simp split: option.splits)
      from r have "r = (False, ''Connect timeout'', None)" if "err = Some (Error ''timeout'')"
        using that by (simp add: timeout_message)
      with vc ok show ?thesis by blast
    qed
  qed
qed

text \<open>
  C9 (\<open>ValidateConfig\<close> changes nothing of the dispatcher): whatever the configuration
  and the network do, the call leaves the configuration store, the queue, the slice of
  workers, the worker goroutines and the channels as they were. To the outside it does at
  most one dial and one close of the connection it dialled; a verdict "valid" comes from
  exactly that. The only trace it can leave in the process is its own dialing goroutine,
  left behind when the ten second ticker fires first, and then the answer is
  "Connect timeout".
\<close>

theorem C9_validate_leaves_dispatcher:
  assumes "ValidateConfig net configs w = (r, w', effs)"
  shows "configCache (man w') = configCache (man w)
         \<and> msgChan (man w') = msgChan (man w)
         \<and> senders (man w') = senders (man w)
         \<and> goroutines w' = goroutines w
         \<and> man w' = man w \<and> closedStops w' = closedStops w \<and> stopsMade w' = stopsMade w
         \<and> chansMade w' = chansMade w \<and> resultsMade w' = resultsMade w
         \<and> (effs = [] \<or> effs = [Dial] \<or> (\<exists>c. effs = [Dial, CloseConn c]))
         \<and> (fst r \<longrightarrow> (\<exists>c. effs = [Dial, CloseConn c]) \<and> dialing w' = dialing w)
         \<and> (dialing w' \<noteq> dialing w \<longrightarrow>
               r = (False, ''Connect timeout'', None) \<and> effs = []
               \<and> (\<exists>d. dialing w' = dialing w @ [d]))"
proof -
  note frame = ValidateConfig_frame [OF assms]
  from ValidateConfig_cases [OF assms]
  have rest: "(effs = [] \<or> effs = [Dial] \<or> (\<exists>c. effs = [Dial, CloseConn c]))
         \<and> (fst r \<longrightarrow> (\<exists>c. effs = [Dial, CloseConn c]) \<and> dialing w' = dialing w)
         \<and> (dialing w' \<noteq> dialing w \<longrightarrow>
               r = (False, ''Connect timeout'', None) \<and> effs = []
               \<and> (\<exists>d. dialing w' = dialing w @ [d]))"
  proof
    assume "w' = w \<and> effs = [] \<and> \<not> fst r"
    then show ?thesis by simp
  next
    assume "\<exists>conn err. validateConfig net conn w = (err, w', effs)
               \<and> fst r = (err = None)
               \<and> (err = Some (Error ''timeout'') \<longrightarrow> r = (False, ''Connect timeout'', None))"
    then obtain conn err where vc: "validateConfig net conn w = (err, w', effs)"
      and ok: "fst r = (err = None)"
      and t: "err = Some (Error ''timeout'') \<longrightarrow> r = (False, ''Connect timeout'', None)"
      by blast
    from validateConfig_outcomes [OF vc] ok t show ?thesis by auto
  qed
  from frame rest show ?thesis by simp
qed

theorem C9_validate_leaves_dispatcher_witness:
  "ValidateConfig (\<lambda>d. DialFinishes (Inr (Conn 7))) full_config queued_world
     = ((True, [], None), queued_world, [Dial, CloseConn (Conn 7)])
   \<and> ValidateConfig (\<lambda>d. TickerFires) full_config queued_world
     = ((False, ''Connect timeout'', None), queued_world\<lparr>dialing := [demo_dialer]\<rparr>, [])
   \<and> man (queued_world\<lparr>dialing := [demo_dialer]\<rparr>) = man queued_world
   \<and> goroutines (queued_world\<lparr>dialing := [demo_dialer]\<rparr>) = goroutines queued_world"
proof -
  have a: "ValidateConfig (\<lambda>d. DialFinishes (Inr (Conn 7))) full_config queued_world
     = ((True, [], None), queued_world, [Dial, CloseConn (Conn 7)])"
    by (simp add: ValidateConfig_def validateConfig_def failure_message_def config_value_def
        demo_eval)
  have b: "ValidateConfig (\<lambda>d. TickerFires) full_config queued_world
     = ((False, ''Connect timeout'', None), queued_world\<lparr>dialing := [demo_dialer]\<rparr>, [])"
    by (simp add: ValidateConfig_def validateConfig_def failure_message_def config_value_def
        demo_eval)
  from C9_validate_leaves_dispatcher [OF a] C9_validate_leaves_dispatcher [OF b] a b
  show ?thesis by simp
qed

subsection \<open>What \<open>Atoi\<close> rejects\<close>

lemma fast_digits_None: "(fast_digits s n = None) = (\<not> list_all is_digit s)"
  by (induction s arbitrary: n) auto

lemma fast_digits_Some: "fast_digits s n = Some m \<Longrightarrow> list_all is_digit s"
  using fast_digits_None [of s n] by auto

lemma ParseUint_loop_rejects:
  "\<not> list_all is_digit s \<Longrightarrow>
   ParseUint_loop s n = (0, Some ErrSyntax) \<or> ParseUint_loop s n = (maxUint64, Some ErrRange)"
  by (induction s arbitrary: n) auto

lemma ParseInt_rejects:
  assumes "\<not> decimal_integer s"
  shows "snd (ParseInt s) \<noteq> None"
proof (cases "s = []")
  case True
  then show ?thesis by (simp add: ParseInt_def)
next
  case False
  define body where "body = (if hd s = CHR ''+'' \<or> hd s = CHR ''-'' then tl s else s)"
  from assms False have b: "body = [] \<or> \<not> list_all is_digit body"
    by (auto simp: decimal_integer_def body_def Let_def split: if_splits)
  have "ParseUint body = (0, Some ErrSyntax) \<or> ParseUint body = (maxUint64, Some ErrRange)"
    using b ParseUint_loop_rejects [of body 0] by (auto simp: ParseUint_def)
  then show ?thesis
    using False
    by (auto simp: ParseInt_def Let_def body_def [symmetric] maxUint64_def)
qed

lemma Atoi_short:
  assumes "\<not> decimal_integer s" and "length s < 19"
  shows "Atoi s = (0, Some ErrSyntax)"
proof (cases "s = []")
  case True
  then show ?thesis by (simp add: Atoi_def ParseInt_def)
next
  case False
  define body where "body = (if hd s = CHR ''-'' \<or> hd s = CHR ''+'' then tl s else s)"
  from assms False have b: "body = [] \<or> \<not> list_all is_digit body"
    by (auto simp: decimal_integer_def body_def Let_def split: if_splits)
  then show ?thesis
    using False assms(2)
    by (auto simp: Atoi_def Let_def body_def [symmetric] split: option.splits
        dest: fast_digits_Some)
qed

lemma Atoi_rejects:
  assumes "\<not> decimal_integer s"
  shows "snd (Atoi s) \<noteq> None"
proof (cases "0 < length s \<and> length s < 19")
  case True
  with Atoi_short [OF assms] show ?thesis by simp
next
  case False
  then have "Atoi s = ParseInt s" by (auto simp: Atoi_def)
  with ParseInt_rejects [OF assms] show ?thesis by simp
qed

subsection \<open>Stopping and starting the workers\<close>

lemma stop_all_goes_through:
  "distinct (stopCs ss) \<Longrightarrow> set (stopCs ss) \<inter> closedStops w = {} \<Longrightarrow>
   \<exists>w'. stop_all ss w = Inr w'"
proof (induction ss arbitrary: w)
  case Nil
  then show ?case by simp
next
  case (Cons s ss)
  show ?case
  proof (cases "stopC s")
    case None
    with Cons show ?thesis by (simp add: stop_def)
  next
    case (Some c)
    with Cons.prems have fresh: "c \<notin> closedStops w" and d: "distinct (stopCs ss)"
      and nc: "c \<notin> set (stopCs ss)" and dj: "set (stopCs ss) \<inter> closedStops w = {}"
      by auto
    let ?w1 = "w\<lparr>closedStops := insert c (closedStops w)\<rparr>"
    from nc dj have "set (stopCs ss) \<inter> closedStops ?w1 = {}" by auto
    from Cons.IH [OF d this] obtain w' where "stop_all ss ?w1 = Inr w'" by blast
    with Some fresh show ?thesis by (simp add: stop_def)
  qed
qed

lemma spawn_senders_goes_through:
  "\<forall>i\<in>set idxs. i < length (senders (man w)) \<Longrightarrow>
   \<exists>w'. spawn_senders d idxs w = Inr w'
        \<and> length (senders (man w')) = length (senders (man w))
        \<and> (\<forall>i\<in>set idxs. dialer (senders (man w') ! i) = Some d)
        \<and> (\<forall>j. j \<notin> set idxs \<longrightarrow> senders (man w') ! j = senders (man w) ! j)"
proof (induction idxs arbitrary: w)
  case Nil
  then show ?case by simp
next
  case (Cons i rest)
  let ?worker = "\<lparr>number = int i + 1, dialer = Some d, sender = None, open = False,
                   stopC = Some (stopsMade w), closeFailedTimes = 0\<rparr>"
  let ?w1 = "w\<lparr>man := (man w)\<lparr>senders := (senders (man w))[i := ?worker]\<rparr>,
               stopsMade := Suc (stopsMade w),
               goroutines := goroutines w @ [Some ?worker]\<rparr>"
  from Cons.prems have lt: "i < length (senders (man w))" by simp
  from Cons.prems have "\<forall>j\<in>set rest. j < length (senders (man ?w1))" by simp
  from Cons.IH [OF this] obtain w' where sp: "spawn_senders d rest ?w1 = Inr w'"
    and len: "length (senders (man w')) = length (senders (man ?w1))"
    and dl: "\<forall>j\<in>set rest. dialer (senders (man w') ! j) = Some d"
    and same: "\<forall>j. j \<notin> set rest \<longrightarrow> senders (man w') ! j = senders (man ?w1) ! j"
    by blast
  have 1: "spawn_senders d (i # rest) w = Inr w'"
    using sp lt by (simp add: Let_def)
  have 2: "length (senders (man w')) = length (senders (man w))"
    using len by simp
  have 3: "dialer (senders (man w') ! i) = Some d"
  proof (cases "i \<in> set rest")
    case True
    with dl show ?thesis by blast
  next
    case False
    with same have "senders (man w') ! i = senders (man ?w1) ! i" by blast
    with lt show ?thesis by simp
  qed
  have 4: "\<forall>j. j \<notin> set (i # rest) \<longrightarrow> senders (man w') ! j = senders (man w) ! j"
    using same by auto
  from 1 2 3 4 dl show ?case by auto
qed

lemma spawn_senders_goroutines:
  "spawn_senders d idxs w = Inr w' \<Longrightarrow>
   \<exists>gs. goroutines w' = goroutines w @ gs \<and> length gs = length idxs
        \<and> (\<forall>g\<in>set gs. \<exists>wk. g = Some wk \<and> \<not> open wk \<and> dialer wk = Some d)"
proof (induction idxs arbitrary: w)
  case Nil
  then show ?case by simp
next
  case (Cons i rest)
  let ?worker = "\<lparr>number = int i + 1, dialer = Some d, sender = None, open = False,
                   stopC = Some (stopsMade w), closeFailedTimes = 0\<rparr>"
  let ?w1 = "w\<lparr>man := (man w)\<lparr>senders := (senders (man w))[i := ?worker]\<rparr>,
               stopsMade := Suc (stopsMade w),
               goroutines := goroutines w @ [Some ?worker]\<rparr>"
  from Cons.prems have sp: "spawn_senders d rest ?w1 = Inr w'"
    by (simp add: Let_def split: if_splits)
  from Cons.IH [OF sp] obtain gs where g: "goroutines w' = goroutines ?w1 @ gs"
    and l: "length gs = length rest"
    and a: "\<forall>g\<in>set gs. \<exists>wk. g = Some wk \<and> \<not> open wk \<and> dialer wk = Some d"
    by blast
  from g have "goroutines w' = goroutines w @ (Some ?worker # gs)" by simp
  moreover from l have "length (Some ?worker # gs) = length (i # rest)" by simp
  moreover from a have "\<forall>g\<in>set (Some ?worker # gs). \<exists>wk. g = Some wk \<and> \<not> open wk \<and> dialer wk = Some d"
    by simp
  ultimately show ?case by blast
qed

lemma Run_iteration_closed_continues:
  "\<not> open self \<Longrightarrow> dialer self = Some d \<Longrightarrow>
   \<exists>self' effs. Run_iteration tr (RecvMsg u) self = (self', effs, ContinueLoop)
     \<and> length (signals_on (result u) effs) = 1"
  by (auto simp: Run_iteration_def split: sum.splits option.splits)

lemma BatchGet_four:
  "cache k1 = Some v1 \<Longrightarrow> cache k2 = Some v2 \<Longrightarrow> cache k3 = Some v3 \<Longrightarrow> cache k4 = Some v4
   \<Longrightarrow> BatchGet cache [k1, k2, k3, k4] = ([v1, v2, v3, v4], True, [])"
  by simp

subsection \<open>The queue across a restart\<close>

lemma initSender_spawns:
  assumes "initSender w = Inr (w', None)"
  shows "\<exists>d gs. goroutines w' = goroutines w @ gs \<and> length gs = nat (senderNum (man w))
           \<and> (\<forall>g\<in>set gs. \<exists>wk. g = Some wk \<and> \<not> open wk \<and> dialer wk = Some d)"
proof -
  from assms obtain d w1 where sp: "spawn_senders d [0 ..< nat (senderNum (man w1))] w1 = Inr w'"
    and g: "goroutines w1 = goroutines w" and n: "senderNum (man w1) = senderNum (man w)"
    by (auto simp: initSender_def Let_def split: prod.splits if_splits sum.splits)
  from spawn_senders_goroutines [OF sp] g n show ?thesis
    by auto
qed

lemma initSender_keeps_closed:
  assumes "initSender w = Inr (w', err)"
  shows "closedStops w' = closedStops w"
proof (cases err)
  case (Some e)
  with assms have "w' = w"
    by (auto simp: initSender_def Let_def split: prod.splits if_splits sum.splits)
  then show ?thesis by simp
next
  case None
  with assms have "\<exists>d idxs w1. spawn_senders d idxs w1 = Inr w' \<and> closedStops w1 = closedStops w"
    by (fastforce simp: initSender_def Let_def split: prod.splits if_splits sum.splits)
  then obtain d idxs w1 where sp: "spawn_senders d idxs w1 = Inr w'"
    and c: "closedStops w1 = closedStops w"
    by blast
  from spawn_senders_keeps [OF sp] c show ?thesis by simp
qed

lemma Run_iteration_closed_effects:
  "\<not> open self \<Longrightarrow> dialer self = Some d \<Longrightarrow>
   \<exists>self'. Run_iteration tr (RecvMsg u) self =
     (self',
      (case dial_result tr of
         Inl e \<Rightarrow> [Dial, Signal (result u) False]
       | Inr conn \<Rightarrow> [Dial, SendMail conn (message u), Signal (result u) (send_result tr = None)]),
      ContinueLoop)"
  by (auto simp: Run_iteration_def split: sum.splits option.splits)

text \<open>
  C8, as stated (after a restart the queued units are consumed by the new worker set
  rather than being dropped): the restart leaves both queued units in place, but they are
  not kept for the new workers. The worker of the old set, whose stop channel the restart
  closed and whose loop has not yet taken the stop case, can still receive the first
  unit. And when the new worker receives both, it sends the first and, being open by
  then, does nothing with the second: the queue is empty and the second unit's result
  channel was never signalled.
\<close>

theorem C8_queued_units_not_kept_for_new_workers:
  "restartSender queued_world = Inr (restarted_world, None)
   \<and> goroutines restarted_world ! 0 = Some fresh_worker
   \<and> stopC fresh_worker = Some 0 \<and> 0 \<in> closedStops restarted_world
   \<and> map_sum id snd (run [WorkerStep 0 TakeMsg transport_ok] restarted_world)
       = Inr [WorkerDid [Dial, SendMail (Conn 0) (message unit0), Signal 0 True] []]
   \<and> map_sum id snd
         (run [WorkerStep 1 TakeMsg transport_ok, WorkerStep 1 TakeMsg transport_ok]
            restarted_world)
       = Inr [WorkerDid [Dial, SendMail (Conn 0) (message unit0), Signal 0 True] [],
              WorkerDid [] []]
   \<and> map_sum id (\<lambda>(w, rs). map_option buf (msgChan (man w)))
         (run [WorkerStep 1 TakeMsg transport_ok, WorkerStep 1 TakeMsg transport_ok]
            restarted_world)
       = Inr (Some [])"
  by (simp add: demo_eval step_eval)

text \<open>
  C8, amended: the queue is made at most once. When it exists, a restart that returns,
  with or without error, leaves the dispatcher with the very same channel, holding the
  same units in the same order, and makes no other channel. A restart that returns nil
  has closed the stop channel of every worker in the slice and started \<open>senderNum\<close>
  new workers beside the goroutines that were there; each new worker receives from that
  same queue, and its first receive takes the oldest unit, dials, sends it and signals
  its result channel once. The units are not reserved for the new workers: the
  goroutines of the old set are still there until they take their stop case.
\<close>

theorem C8_restart_keeps_queue:
  assumes q: "msgChan (man w) = Some c" and r: "restartSender w = Inr (w', err)"
  shows "msgChan (man w') = Some c \<and> chansMade w' = chansMade w
         \<and> (err = None \<longrightarrow>
              (\<exists>gs. goroutines w' = goroutines w @ gs \<and> length gs = nat (senderNum (man w)))
              \<and> set (stopCs (senders (man w))) \<subseteq> closedStops w'
              \<and> (length (goroutines w) \<le> g \<and> g < length (goroutines w')
                    \<and> chan_recv c = Some (u, c1, rel) \<longrightarrow>
                  (\<exists>w''. worker_step g TakeMsg tr w'
                     = Some (Inr (w'',
                          (case dial_result tr of
                             Inl e \<Rightarrow> [Dial, Signal (result u) False]
                           | Inr conn \<Rightarrow>
                               [Dial, SendMail conn (message u),
                                Signal (result u) (send_result tr = None)]),
                          released_returns rel))
                     \<and> msgChan (man w'') = Some c1)))"
proof -
  from r obtain w1 where s: "stop_all (senders (man w)) w = Inr w1"
    and i: "initSender w1 = Inr (w', err)"
    by (auto simp: restartSender_def split: sum.splits)
  note k = stop_all_keeps [OF s]
  from q k have q1: "msgChan (man w1) = Some c" by simp
  from initSender_keeps_queue [OF i q1] k
  have keep: "msgChan (man w') = Some c \<and> chansMade w' = chansMade w" by simp
  from stop_all_closes [OF s] initSender_keeps_closed [OF i]
  have closed: "set (stopCs (senders (man w))) \<subseteq> closedStops w'" by simp
  have new: "(\<exists>gs. goroutines w' = goroutines w @ gs \<and> length gs = nat (senderNum (man w)))
      \<and> (length (goroutines w) \<le> g \<and> g < length (goroutines w')
                    \<and> chan_recv c = Some (u, c1, rel) \<longrightarrow>
                  (\<exists>w''. worker_step g TakeMsg tr w'
                     = Some (Inr (w'',
                          (case dial_result tr of
                             Inl e \<Rightarrow> [Dial, Signal (result u) False]
                           | Inr conn \<Rightarrow>
                               [Dial, SendMail conn (message u),
                                Signal (result u) (send_result tr = None)]),
                          released_returns rel))
                     \<and> msgChan (man w'') = Some c1))"
    if e: "err = None"
  proof -
    from i e have "initSender w1 = Inr (w', None)" by simp
    from initSender_spawns [OF this] k obtain d gs
      where gs: "goroutines w' = goroutines w @ gs" and l: "length gs = nat (senderNum (man w))"
        and a: "\<forall>g\<in>set gs. \<exists>wk. g = Some wk \<and> \<not> open wk \<and> dialer wk = Some d"
      by auto
    have "\<exists>w''. worker_step g TakeMsg tr w'
                     = Some (Inr (w'',
                          (case dial_result tr of
                             Inl e \<Rightarrow> [Dial, Signal (result u) False]
                           | Inr conn \<Rightarrow>
                               [Dial, SendMail conn (message u),
                                Signal (result u) (send_result tr = None)]),
                          released_returns rel))
                     \<and> msgChan (man w'') = Some c1"
      if lo: "length (goroutines w) \<le> g" and hi: "g < length (goroutines w')"
        and rc: "chan_recv c = Some (u, c1, rel)"
    proof -
      from lo hi gs have "goroutines w' ! g = gs ! (g - length (goroutines w))"
        and "g - length (goroutines w) < length gs"
        by (simp_all add: nth_append)
      with a obtain wk where wk: "goroutines w' ! g = Some wk" "\<not> open wk" "dialer wk = Some d"
        by (metis nth_mem)
      from Run_iteration_closed_effects [OF wk(2,3), of tr u] obtain self'
        where it: "Run_iteration tr (RecvMsg u) wk =
          (self',
           (case dial_result tr of
              Inl e \<Rightarrow> [Dial, Signal (result u) False]
            | Inr conn \<Rightarrow>
                [Dial, SendMail conn (message u), Signal (result u) (send_result tr = None)]),
           ContinueLoop)"
        by blast
      from keep hi wk(1) rc it show ?thesis
        by (simp add: worker_step_def after_iteration_def)
    qed
    with gs l show ?thesis by blast
  qed
  from keep closed new show ?thesis by blast
qed

theorem C8_restart_keeps_queue_witness:
  "msgChan (man queued_world)
     = Some \<lparr>chan_id = 0, cap = 8, buf = [unit0, unit1], sendq = []\<rparr>
   \<and> restartSender queued_world = Inr (restarted_world, None)
   \<and> msgChan (man restarted_world)
       = Some \<lparr>chan_id = 0, cap = 8, buf = [unit0, unit1], sendq = []\<rparr>
   \<and> chansMade restarted_world = chansMade queued_world
   \<and> length (goroutines queued_world) = 1 \<and> length (goroutines restarted_world) = 2
   \<and> chan_recv \<lparr>chan_id = 0, cap = 8, buf = [unit0, unit1], sendq = []\<rparr>
       = Some (unit0, \<lparr>chan_id = 0, cap = 8, buf = [unit1], sendq = []\<rparr>, [])
   \<and> (\<exists>w''. worker_step 1 TakeMsg transport_ok restarted_world
          = Some (Inr (w'', [Dial, SendMail (Conn 0) (message unit0), Signal 0 True], []))
          \<and> msgChan (man w'') = Some \<lparr>chan_id = 0, cap = 8, buf = [unit1], sendq = []\<rparr>)"
proof -
  let ?c = "\<lparr>chan_id = 0, cap = 8, buf = [unit0, unit1], sendq = []\<rparr>"
  let ?c1 = "\<lparr>chan_id = 0, cap = 8, buf = [unit1], sendq = []\<rparr>"
  have q: "msgChan (man queued_world) = Some ?c"
    by (simp add: queued_world_def configured_world_def)
  have r: "restartSender queued_world = Inr (restarted_world, None)"
    by (simp add: demo_eval)
  have n: "length (goroutines queued_world) = 1" "length (goroutines restarted_world) = 2"
    by (simp_all add: queued_world_def configured_world_def restarted_world_def)
  have c: "chan_recv ?c = Some (unit0, ?c1, [])"
    by (simp add: chan_recv_def)
  have t: "dial_result transport_ok = Inr (Conn 0)" "send_result transport_ok = None"
    "result unit0 = 0"
    by (simp_all add: transport_ok_def unit0_def)
  from C8_restart_keeps_queue [OF q r, of 1 unit0 ?c1 "[]" transport_ok] q r n c t
  show ?thesis by (simp add: released_returns_def)
qed

subsection \<open>A port that is not a number\<close>

text \<open>
  C10, as stated (every configuration whose hostport is present and not a decimal integer
  passes \<open>UpdateConfig\<close>, with a dialer on port 0): a configuration that has only such a
  hostport is refused by \<open>initSender\<close> for the missing hostname; and for a full
  configuration whose hostport starts with digits that overflow 64 bits, \<open>Atoi\<close> reports
  a range error beside the clamped value, so the dialer gets port 9223372036854775807.
\<close>

theorem C10_not_every_bad_port_config:
  "\<not> decimal_integer ''abc''
   \<and> map_sum id snd (UpdateConfig only_port_config demo_world)
       = Inr (Some (WrapConfigMiss ''hostname''))
   \<and> \<not> decimal_integer ''99999999999999999999x''
   \<and> map_sum id (\<lambda>(w', err). (err, map (map_option dPort \<circ> dialer) (senders (man w'))))
         (UpdateConfig overflow_port_config demo_world)
       = Inr (None, [Some 9223372036854775807])"
  by (simp add: decimal_integer_def only_port_config_def overflow_port_config_def demo_eval
      ParseInt_def ParseUint_def maxUint64_def)

text \<open>
  C10, amended: in a state in which a restart goes through, for every configuration that
  has hostname, password and username and whose hostport is present but not a decimal
  integer, \<open>UpdateConfig\<close> returns nil: \<open>initSender\<close> drops the error of \<open>Atoi\<close> and
  gives every worker a dialer with the number \<open>Atoi\<close> returned beside it, which is 0
  whenever the value is shorter than 19 bytes. \<open>ValidateConfig\<close> rejects the same
  configuration, in any state and without dialing, with the error "invalid hostport"
  followed by the value.
\<close>

theorem C10_update_accepts_bad_port:
  assumes ok: "restartable w"
    and h: "configs HOSTNAME = Some h" and pw: "configs PASSWORD = Some pw"
    and u: "configs USERNAME = Some u" and v: "configs HOSTPORT = Some v"
    and bad: "\<not> decimal_integer v"
  shows "\<exists>w'. UpdateConfig configs w = Inr (w', None)
           \<and> (\<forall>i < nat (senderNum (man w)).
                 map_option dPort (dialer (senders (man w') ! i)) = Some (fst (Atoi v)))
           \<and> (length v < 19 \<longrightarrow> fst (Atoi v) = 0)
           \<and> ValidateConfig net configs w0
               = ((False, [], Some (Error (''invalid hostport '' @ v))), w0, [])"
proof -
  let ?w0 = "w\<lparr>man := (man w)\<lparr>configCache := BatchSet (Clean (configCache (man w))) configs\<rparr>\<rparr>"
  have cache: "configCache (man ?w0) = configs"
    by (simp add: BatchSet_def Clean_def)
  from ok have "distinct (stopCs (senders (man ?w0)))"
    and "set (stopCs (senders (man ?w0))) \<inter> closedStops ?w0 = {}"
    by (simp_all add: restartable_def)
  from stop_all_goes_through [OF this] obtain w1
    where s: "stop_all (senders (man ?w0)) ?w0 = Inr w1" by blast
  note k = stop_all_keeps [OF s]
  from k cache have c1: "configCache (man w1) = configs" by simp
  from k ok have n1: "nat (senderNum (man w1)) \<le> length (senders (man w1))"
    and m1: "msgChan (man w1) = None \<longrightarrow> 0 \<le> chanelSize (man w1)"
    and sn: "senderNum (man w1) = senderNum (man w)"
    by (auto simp: restartable_def)
  define dl where "dl = (let d = NewDialer h (fst (Atoi v)) u pw in
      if fst (Get configs GLOBALSSL) = ''true'' \<or> fst (Get configs SSL) = ''true''
      then d\<lparr>dSSL := True\<rparr> else d\<lparr>dSSL := False, dTLSConfig := Some True\<rparr>)"
  have port: "dPort dl = fst (Atoi v)"
    by (simp add: dl_def NewDialer_def Let_def)
  define w2 where "w2 = (if msgChan (man w1) = None
      then w1\<lparr>man := (man w1)\<lparr>msgChan := Some \<lparr>chan_id = chansMade w1,
                 cap = nat (chanelSize (man w1)), buf = [], sendq = []\<rparr>\<rparr>,
               chansMade := Suc (chansMade w1)\<rparr>
      else w1)"
  have w2: "senderNum (man w2) = senderNum (man w1)" "senders (man w2) = senders (man w1)"
    by (simp_all add: w2_def)
  with n1 have "\<forall>i\<in>set [0 ..< nat (senderNum (man w2))]. i < length (senders (man w2))"
    by simp
  from spawn_senders_goes_through [OF this, of dl] obtain w'
    where sp: "spawn_senders dl [0 ..< nat (senderNum (man w2))] w2 = Inr w'"
      and dls: "\<forall>i\<in>set [0 ..< nat (senderNum (man w2))]. dialer (senders (man w') ! i) = Some dl"
    by blast
  have bg: "BatchGet configs [HOSTNAME, PASSWORD, USERNAME, HOSTPORT]
              = ([h, pw, u, v], True, [])"
    using h pw u v by (simp add: BatchGet_four)
  have init: "initSender w1 = Inr (w', None)"
  proof (cases "msgChan (man w1)")
    case None
    with m1 have "0 \<le> chanelSize (man w1)" by simp
    with None sp [unfolded dl_def w2_def Let_def] show ?thesis
      by (simp add: initSender_def c1 bg Let_def del: BatchGet.simps)
  next
    case (Some c)
    with sp [unfolded dl_def w2_def Let_def] show ?thesis
      by (simp add: initSender_def c1 bg Let_def del: BatchGet.simps)
  qed
  from s init have upd: "UpdateConfig configs w = Inr (w', None)"
    by (simp add: UpdateConfig_def restartSender_def)
  from dls w2 sn port
  have ports: "\<forall>i < nat (senderNum (man w)).
                 map_option dPort (dialer (senders (man w') ! i)) = Some (fst (Atoi v))"
    by simp
  have short: "length v < 19 \<longrightarrow> fst (Atoi v) = 0"
    using Atoi_short [OF bad] by simp
  from Atoi_rejects [OF bad] obtain n e where at: "Atoi v = (n, Some e)"
    by (cases "Atoi v") auto
  have val: "ValidateConfig net configs w0
               = ((False, [], Some (Error (''invalid hostport '' @ v))), w0, [])"
    using h pw u v at by (simp add: ValidateConfig_def CheckMap_four)
  from upd ports short val show ?thesis by blast
qed

theorem C10_update_accepts_bad_port_witness:
  "restartable demo_world
   \<and> bad_port_config HOSTNAME = Some ''smtp.example.com''
   \<and> bad_port_config PASSWORD = Some ''p''
   \<and> bad_port_config USERNAME = Some ''u''
   \<and> bad_port_config HOSTPORT = Some ''abc''
   \<and> \<not> decimal_integer ''abc''
   \<and> (\<exists>w'. UpdateConfig bad_port_config demo_world = Inr (w', None)
          \<and> map_option dPort (dialer (senders (man w') ! 0)) = Some 0)
   \<and> ValidateConfig (\<lambda>d. DialFinishes (Inr (Conn 0))) bad_port_config demo_world
       = ((False, [], Some (Error ''invalid hostport abc'')), demo_world, [])"
proof -
  have ok: "restartable demo_world"
    by (simp add: restartable_def demo_world_def demo_man_def start_world_def zero_sSender_def)
  have k: "bad_port_config HOSTNAME = Some ''smtp.example.com''"
    "bad_port_config PASSWORD = Some ''p''"
    "bad_port_config USERNAME = Some ''u''"
    "bad_port_config HOSTPORT = Some ''abc''"
    by (simp_all add: bad_port_config_def HOSTNAME_def HOSTPORT_def USERNAME_def PASSWORD_def)
  have bad: "\<not> decimal_integer ''abc''"
    by (simp add: decimal_integer_def is_digit_def)
  have n: "nat (senderNum (man demo_world)) = 1"
    by (simp add: demo_world_def demo_man_def start_world_def)
  have a: "fst (Atoi ''abc'') = 0"
    by (simp add: Atoi_def is_digit_def)
  from C10_update_accepts_bad_port [OF ok k bad, of "\<lambda>d. DialFinishes (Inr (Conn 0))"
      demo_world] n a
  have "(\<exists>w'. UpdateConfig bad_port_config demo_world = Inr (w', None)
          \<and> map_option dPort (dialer (senders (man w') ! 0)) = Some 0)
        \<and> ValidateConfig (\<lambda>d. DialFinishes (Inr (Conn 0))) bad_port_config demo_world
            = ((False, [], Some (Error ''invalid hostport abc'')), demo_world, [])"
    by auto
  with ok k bad show ?thesis by simp
qed


subsection \<open>The worker loop\<close>

lemma Run_iteration_closed_signals_once:
  "\<not> open self \<Longrightarrow> dialer self = Some d \<Longrightarrow>
   signals_on (result msg) (fst (snd (Run_iteration tr (RecvMsg msg) self))) =
     [case dial_result tr of Inl e \<Rightarrow> False | Inr c \<Rightarrow> send_result tr = None]"
  by (simp add: Run_iteration_def split: sum.splits option.splits)

text \<open>
  C1 (the worker signals the result channel of every dequeued unit exactly once, whatever
  its Open/Closed state). The code does so only while Closed. A worker as \<open>initSender\<close>
  creates it, on a healthy transport, that receives two units in a row signals \<open>true\<close>
  on the first unit's channel and never signals the second unit's channel: the first
  send leaves it Open, and the branch for an Open worker is empty.
\<close>

theorem C1_open_worker_never_signals:
  "signals_on (result unit0)
     (fst (snd (Run [(RecvMsg unit0, transport_ok), (RecvMsg unit1, transport_ok)] fresh_worker)))
     = [True]
   \<and> signals_on (result unit1)
     (fst (snd (Run [(RecvMsg unit0, transport_ok), (RecvMsg unit1, transport_ok)] fresh_worker)))
     = []
   \<and> open (fst (Run [(RecvMsg unit0, transport_ok)] fresh_worker))"
  by (simp add: Run_iteration_def fresh_worker_def transport_ok_def unit0_def unit1_def)

text \<open>
  C2 (an Open worker that dequeues a message attempts a send on the existing connection,
  reports the outcome and closes itself on failure). In the code an Open worker that
  dequeues a message does nothing at all: no transport call, no signal, no change of
  state, whatever the transport would have answered.
\<close>

theorem C2_open_worker_does_nothing:
  "open self \<Longrightarrow> Run_iteration tr (RecvMsg msg) self = (self, [], ContinueLoop)"
  by (simp add: Run_iteration_def)

theorem C2_open_worker_does_nothing_witness:
  "open open_worker
   \<and> Run_iteration transport_send_fails (RecvMsg unit1) open_worker
       = (open_worker, [], ContinueLoop)
   \<and> send_attempts (fst (snd (Run_iteration transport_send_fails (RecvMsg unit1) open_worker))) = 0
   \<and> signals_on (result unit1)
        (fst (snd (Run_iteration transport_send_fails (RecvMsg unit1) open_worker))) = []"
proof -
  have o: "open open_worker"
    by (simp add: open_worker_def)
  from C2_open_worker_does_nothing [OF o, of transport_send_fails unit1] o
  show ?thesis by simp
qed

text \<open>
  C4 (after the 2nd consecutive close failure the worker forces itself Closed). The test
  is \<open>closeFailedTimes > 2\<close> on a counter that starts at 0 and is incremented after
  the test, so an Open worker is still Open after two and after three consecutive
  failed closes, and is forced Closed by the fourth.
\<close>

theorem C4_forced_closed_on_fourth_failure:
  "open (fst (Run (replicate 2 (AfterIdle, transport_close_fails)) open_worker))
   \<and> closeFailedTimes (fst (Run (replicate 2 (AfterIdle, transport_close_fails)) open_worker)) = 2
   \<and> open (fst (Run (replicate 3 (AfterIdle, transport_close_fails)) open_worker))
   \<and> \<not> open (fst (Run (replicate 4 (AfterIdle, transport_close_fails)) open_worker))
   \<and> closeFailedTimes (fst (Run (replicate 4 (AfterIdle, transport_close_fails)) open_worker)) = 0"
  by (simp add: numeral_eq_Suc Run_iteration_def open_worker_def fresh_worker_def
        transport_close_fails_def)

end
